theory Spec2Isabelle
  imports Complex_Main
begin

section \<open>The identification tool of the 3D viewer\<close>

text \<open>
  A shallow embedding of \<^verbatim>\<open>source/website/identificationtool.js\<close> and of the second
  copy of the same file (\<^verbatim>\<open>unnamed/part_000\<close>). JavaScript numbers are modelled as
  \<^typ>\<open>real\<close>; the rounding of floating point arithmetic is not modelled.

  The tool mutates objects that are shared by reference: a \<^verbatim>\<open>Marker\<close> is held by the
  tool (in \<^verbatim>\<open>markers\<close> or \<^verbatim>\<open>tempMarker\<close>) while its \<^verbatim>\<open>markerObject\<close> is held by the
  viewer's extra objects. Markers therefore live in an explicit store, and the tool and
  the viewer hold addresses.
\<close>

subsection \<open>Vectors, intersections and the host 3D library\<close>

record vector3 =
  vec_x :: real
  vec_y :: real
  vec_z :: real

definition Vector3 :: "real \<Rightarrow> real \<Rightarrow> real \<Rightarrow> vector3" where
  "Vector3 a b c = \<lparr>vec_x = a, vec_y = b, vec_z = c\<rparr>"

record face =
  normal :: vector3

text \<open>
  The result of a ray-cast: the fields of a three.js intersection that the tool reads.
  \<open>'obj\<close> is the type of scene objects.
\<close>

record 'obj intersection =
  point :: vector3
  face :: face
  object :: 'obj

text \<open>
  The operations of the host 3D library (three.js) and of the viewer engine's
  \<^verbatim>\<open>geometry.js\<close>, \<^verbatim>\<open>color.js\<close> and \<^verbatim>\<open>utils.js\<close> that the tool calls, and the two values
  it reads from the page. None of them is part of the two source files, so they are
  parameters of the model: every function below takes them as its first argument
  and every theorem holds for all of them.
  \<^item> \<open>updateWorldMatrix obj updateParents updateChildren\<close> is the object after
    \<^verbatim>\<open>obj.updateWorldMatrix(updateParents, updateChildren)\<close>;
  \<^item> \<open>extractRotation m\<close> is \<^verbatim>\<open>new THREE.Matrix4().extractRotation(m)\<close>;
  \<^item> \<open>applyMatrix4 v m\<close> is the value of \<^verbatim>\<open>v\<close> after \<^verbatim>\<open>v.applyMatrix4(m)\<close>;
  \<^item> \<open>setFromNormalAndCoplanarPoint n p\<close> is
    \<^verbatim>\<open>new THREE.Plane().setFromNormalAndCoplanarPoint(n, p)\<close>;
  \<^item> \<open>bodyBackgroundColor\<close> is
    \<^verbatim>\<open>window.getComputedStyle(document.body, null).backgroundColor\<close>.
\<close>

record rgbcolor =
  col_r :: real
  col_g :: real
  col_b :: real

record rgbacolor = rgbcolor +
  col_a :: real

definition RGBColor :: "real \<Rightarrow> real \<Rightarrow> real \<Rightarrow> rgbcolor" where
  "RGBColor r g b = \<lparr>col_r = r, col_g = g, col_b = b\<rparr>"

record rect =
  rect_left :: real
  rect_right :: real
  rect_top :: real

record panel =
  className :: string
  in_document :: bool
  innerHTML :: string
  style_color :: string
  style_backgroundColor :: string
  style_left_px :: "real option"
  style_top_px :: "real option"

record ('obj, 'mat, 'plane) env =
  updateWorldMatrix :: "'obj \<Rightarrow> bool \<Rightarrow> bool \<Rightarrow> 'obj"
  matrixWorld :: "'obj \<Rightarrow> 'mat"
  extractRotation :: "'mat \<Rightarrow> 'mat"
  applyMatrix4 :: "vector3 \<Rightarrow> 'mat \<Rightarrow> vector3"
  distanceTo :: "vector3 \<Rightarrow> vector3 \<Rightarrow> real"
  angleTo :: "vector3 \<Rightarrow> vector3 \<Rightarrow> real"
  setFromNormalAndCoplanarPoint :: "vector3 \<Rightarrow> vector3 \<Rightarrow> 'plane"
  distanceToPoint :: "'plane \<Rightarrow> vector3 \<Rightarrow> real"
  IsEqualEps :: "real \<Rightarrow> real \<Rightarrow> real \<Rightarrow> bool"
  BigEps :: real
  ColorComponentToFloat :: "real \<Rightarrow> real"
  IsDarkTextNeededForColor :: "rgbcolor \<Rightarrow> bool"
  bodyBackgroundColor :: string
  getBoundingClientRect :: "panel \<Rightarrow> rect"

text \<open>\<^verbatim>\<open>GetFaceWorldNormal\<close>. The face normal is cloned, so the intersection is not changed.\<close>

definition GetFaceWorldNormal :: "('obj, 'mat, 'plane) env \<Rightarrow> 'obj intersection \<Rightarrow> vector3" where
  "GetFaceWorldNormal E i =
     (let obj = updateWorldMatrix E (object i) True False;
          normalMatrix = extractRotation E (matrixWorld E obj);
          faceNormal = normal (face i)
      in applyMatrix4 E faceNormal normalMatrix)"

subsection \<open>Markers\<close>

datatype material = LineBasicMaterial nat bool | MeshBasicMaterial nat

datatype geometry =
    setFromPoints "vector3 list"
  | setFromEllipseCurvePoints real nat
  | SphereGeometry real nat nat

datatype object3d = Line geometry material | Mesh geometry material

definition CreateMaterial :: material where
  "CreateMaterial = LineBasicMaterial 0x263238 False"

definition CreateLineFromPoints :: "vector3 list \<Rightarrow> material \<Rightarrow> object3d" where
  "CreateLineFromPoints points mat = Line (setFromPoints points) mat"

text \<open>
  The \<^verbatim>\<open>THREE.Object3D\<close> of a marker: its children, its position, the target of its
  last \<^verbatim>\<open>lookAt\<close> (made while the position is the origin) and its visibility.
\<close>

record markerObject =
  children :: "object3d list"
  position :: vector3
  lookAt_target :: "vector3 option"
  visible :: bool

record 'obj marker =
  intersection :: "'obj intersection"
  markerObject :: markerObject

definition UpdatePosition ::
  "('obj, 'mat, 'plane) env \<Rightarrow> 'obj intersection \<Rightarrow> 'obj marker \<Rightarrow> 'obj marker" where
  "UpdatePosition E i m =
     (let faceNormal = GetFaceWorldNormal E i;
          ob = (markerObject m)\<lparr>position := Vector3 0 0 0\<rparr>;
          ob = ob\<lparr>lookAt_target := Some faceNormal\<rparr>;
          ob = ob\<lparr>position := Vector3 (vec_x (point i)) (vec_y (point i)) (vec_z (point i))\<rparr>
      in m\<lparr>intersection := i, markerObject := ob\<rparr>)"

text \<open>
  The constructor of \<^verbatim>\<open>Marker\<close>. The field \<^verbatim>\<open>intersection\<close> is \<^verbatim>\<open>null\<close> only until the
  call of \<^verbatim>\<open>UpdatePosition\<close> that ends the constructor, so it is never read as \<^verbatim>\<open>null\<close>.
  The circle is the line through \<^verbatim>\<open>circleCurve.getPoints(50)\<close>.
\<close>

definition Marker :: "('obj, 'mat, 'plane) env \<Rightarrow> 'obj intersection \<Rightarrow> real \<Rightarrow> 'obj marker" where
  "Marker E i radius =
     UpdatePosition E i
       \<lparr>intersection = i,
        markerObject =
          \<lparr>children = [Line (setFromEllipseCurvePoints radius 50) CreateMaterial,
                       Mesh (SphereGeometry radius 32 16) (MeshBasicMaterial 0xffff00)],
           position = Vector3 0 0 0,
           lookAt_target = None,
           visible = True\<rparr>\<rparr>"

definition Show :: "bool \<Rightarrow> 'obj marker \<Rightarrow> 'obj marker" where
  "Show sh m = m\<lparr>markerObject := (markerObject m)\<lparr>visible := sh\<rparr>\<rparr>"

definition GetIntersection :: "'obj marker \<Rightarrow> 'obj intersection" where
  "GetIntersection m = intersection m"

definition GetObject :: "'obj marker \<Rightarrow> markerObject" where
  "GetObject m = markerObject m"

text \<open>
  \<^verbatim>\<open>CalculateMarkerValues\<close> (website copy only). \<open>angle\<close> is the value just stored in
  \<^verbatim>\<open>result.facesAngle\<close>, which the test reads back.
\<close>

record marker_values =
  pointsDistance :: "real option"
  parallelFacesDistance :: "real option"
  facesAngle :: "real option"

definition CalculateMarkerValues ::
  "('obj, 'mat, 'plane) env \<Rightarrow> 'obj marker \<Rightarrow> 'obj marker \<Rightarrow> marker_values" where
  "CalculateMarkerValues E aMarker bMarker =
     (let aIntersection = GetIntersection aMarker;
          bIntersection = GetIntersection bMarker;
          result = \<lparr>pointsDistance = None, parallelFacesDistance = None, facesAngle = None\<rparr>;
          aNormal = GetFaceWorldNormal E aIntersection;
          bNormal = GetFaceWorldNormal E bIntersection;
          result = result\<lparr>pointsDistance :=
                     Some (distanceTo E (point aIntersection) (point bIntersection))\<rparr>;
          angle = angleTo E aNormal bNormal;
          result = result\<lparr>facesAngle := Some angle\<rparr>
      in if IsEqualEps E angle 0 (BigEps E) \<or> IsEqualEps E angle pi (BigEps E)
         then (let aPlane = setFromNormalAndCoplanarPoint E aNormal (point aIntersection)
               in result\<lparr>parallelFacesDistance :=
                    Some \<bar>distanceToPoint E aPlane (point bIntersection)\<bar>\<rparr>)
         else result)"

subsection \<open>The viewer, the page and the state of the tool\<close>

text \<open>
  An extra object of the viewer is either the \<^verbatim>\<open>markerObject\<close> of a marker in the store,
  held by reference, or an object that the tool built and handed over.
\<close>

datatype extra_object = MarkerObject nat | Object3D object3d

type_synonym mouse = "real \<times> real"

text \<open>
  The viewer is used through its interface only: the ray-cast under the mouse, the
  radius of \<^verbatim>\<open>GetBoundingSphere\<close> over all meshes, the bounding rectangle of
  \<^verbatim>\<open>GetCanvas()\<close>, the extra objects it maintains and the renders the tool requested.
\<close>

record 'obj viewer =
  GetMeshIntersectionUnderMouse :: "mouse \<Rightarrow> 'obj intersection option"
  GetBoundingSphere_radius :: real
  GetCanvas_rect :: rect
  extraObjects :: "extra_object list"
  renders :: nat

text \<open>Modelled from the spec: \<^verbatim>\<open>Viewer.AddExtraObject\<close> (the viewer is not part of the
  source files; it is described as maintaining extra decorative scene objects).\<close>

definition AddExtraObject :: "extra_object \<Rightarrow> 'obj viewer \<Rightarrow> 'obj viewer" where
  "AddExtraObject ob v = v\<lparr>extraObjects := extraObjects v @ [ob]\<rparr>"

text \<open>Modelled from the spec: \<^verbatim>\<open>Viewer.ClearExtra\<close>, which removes every extra object.\<close>

definition ClearExtra :: "'obj viewer \<Rightarrow> 'obj viewer" where
  "ClearExtra v = v\<lparr>extraObjects := []\<rparr>"

text \<open>Modelled from the spec: \<^verbatim>\<open>Viewer.Render\<close> (render scheduling), counted.\<close>

definition Render :: "'obj viewer \<Rightarrow> 'obj viewer" where
  "Render v = v\<lparr>renders := Suc (renders v)\<rparr>"

record settings =
  backgroundIsEnvMap :: bool
  backgroundColor :: rgbacolor

record button =
  selected :: bool

text \<open>Modelled from the spec: \<^verbatim>\<open>SetSelected\<close> of the toolbar button abstraction.\<close>

definition SetSelected :: "bool \<Rightarrow> button \<Rightarrow> button" where
  "SetSelected b btn = btn\<lparr>selected := b\<rparr>"

text \<open>Modelled from the spec: \<^verbatim>\<open>AddDiv(document.body, className)\<close> of the DOM utility
  helpers (element creation): a new empty element, attached to the page.\<close>

definition AddDiv :: "string \<Rightarrow> panel" where
  "AddDiv cls = \<lparr>className = cls, in_document = True, innerHTML = [],
     style_color = [], style_backgroundColor = [],
     style_left_px = None, style_top_px = None\<rparr>"

text \<open>Modelled from the spec: \<^verbatim>\<open>ClearDomElement\<close> of the DOM utility helpers (element
  clearing): the element loses its content.\<close>

definition ClearDomElement :: "panel \<Rightarrow> panel" where
  "ClearDomElement p = p\<lparr>innerHTML := []\<rparr>"

record 'obj identificationTool =
  viewer :: "'obj viewer"
  settings :: settings
  isActive :: bool
  markers :: "nat list"
  tempMarker :: "nat option"
  panel :: "panel option"
  button :: "button option"
  store :: "nat \<Rightarrow> 'obj marker option"
  next_ref :: nat

text \<open>
  Reading a property of \<^verbatim>\<open>null\<close> throws a \<^verbatim>\<open>TypeError\<close>. The object outlives the
  exception, so a method that throws returns the state it had reached.
\<close>

datatype js_error = TypeError

type_synonym 's outcome = "(js_error \<times> 's) + 's"

definition final :: "'s outcome \<Rightarrow> 's" where
  "final r = (case r of Inl (e, s) \<Rightarrow> s | Inr s \<Rightarrow> s)"

definition IdentificationTool :: "'obj viewer \<Rightarrow> settings \<Rightarrow> 'obj identificationTool" where
  "IdentificationTool v st =
     \<lparr>viewer = v, settings = st, isActive = False, markers = [], tempMarker = None,
      panel = None, button = None, store = (\<lambda>r. None), next_ref = 0\<rparr>"

definition SetButton :: "button \<Rightarrow> 'obj identificationTool \<Rightarrow> 'obj identificationTool" where
  "SetButton btn s = s\<lparr>button := Some btn\<rparr>"

definition IsActive :: "'obj identificationTool \<Rightarrow> bool" where
  "IsActive s = isActive s"

definition ClearMarkers :: "'obj identificationTool \<Rightarrow> 'obj identificationTool" where
  "ClearMarkers s = s\<lparr>viewer := ClearExtra (viewer s), markers := [], tempMarker := None\<rparr>"

text \<open>\<^verbatim>\<open>new Marker(...)\<close> allocates the marker at the next free address of the store.\<close>

definition GenerateMarker ::
  "('obj, 'mat, 'plane) env \<Rightarrow> 'obj intersection \<Rightarrow> 'obj identificationTool
     \<Rightarrow> nat \<times> 'obj identificationTool" where
  "GenerateMarker E i s =
     (let radius = GetBoundingSphere_radius (viewer s) / 20;
          mk = Marker E i radius;
          r = next_ref s
      in (r, s\<lparr>store := (store s)(r \<mapsto> mk), next_ref := Suc r,
                viewer := AddExtraObject (MarkerObject r) (viewer s)\<rparr>))"

text \<open>
  A method call on the marker at an address changes the stored marker. An address held
  by the tool always holds a marker (\<open>run_wf\<close> below); the other case makes the function
  total.
\<close>

definition on_marker ::
  "nat \<Rightarrow> ('obj marker \<Rightarrow> 'obj marker) \<Rightarrow> 'obj identificationTool \<Rightarrow> 'obj identificationTool" where
  "on_marker r f s =
     (case store s r of None \<Rightarrow> s | Some m \<Rightarrow> s\<lparr>store := (store s)(r \<mapsto> f m)\<rparr>)"

definition MouseMove ::
  "('obj, 'mat, 'plane) env \<Rightarrow> mouse \<Rightarrow> 'obj identificationTool \<Rightarrow> 'obj identificationTool" where
  "MouseMove E mouseCoordinates s =
     (case GetMeshIntersectionUnderMouse (viewer s) mouseCoordinates of
        None \<Rightarrow>
          (case tempMarker s of
             None \<Rightarrow> s
           | Some r \<Rightarrow> (let s1 = on_marker r (Show False) s
                        in s1\<lparr>viewer := Render (viewer s1)\<rparr>))
      | Some i \<Rightarrow>
          (let (r, s1) = (case tempMarker s of
                            None \<Rightarrow> (let (r, s') = GenerateMarker E i s
                                     in (r, s'\<lparr>tempMarker := Some r\<rparr>))
                          | Some r \<Rightarrow> (r, s));
               s2 = on_marker r (UpdatePosition E i) s1;
               s3 = on_marker r (Show True) s2
           in s3\<lparr>viewer := Render (viewer s3)\<rparr>))"

subsection \<open>The panel\<close>

text \<open>The two copies of the source file; they differ in \<^verbatim>\<open>Click\<close>, \<^verbatim>\<open>AddMarker\<close> and
  \<^verbatim>\<open>UpdatePanel\<close> (and \<^verbatim>\<open>part_000\<close> has no \<^verbatim>\<open>CalculateMarkerValues\<close>).\<close>

datatype source_file = Website | Part000

definition is_digit :: "char \<Rightarrow> bool" where
  "is_digit c = (c \<in> set ''0123456789'')"

text \<open>The maximal runs of digits of a string, from left to right.\<close>

fun digit_runs :: "string \<Rightarrow> string \<Rightarrow> string list" where
  "digit_runs cur [] = (if cur = [] then [] else [cur])"
| "digit_runs cur (c # cs) =
     (if is_digit c then digit_runs (cur @ [c]) cs
      else (if cur = [] then [] else [cur]) @ digit_runs [] cs)"

text \<open>\<^verbatim>\<open>str.match(/\d+/g)\<close>, which is \<^verbatim>\<open>null\<close> when the string has no digit.\<close>

definition match_digits :: "string \<Rightarrow> string list option" where
  "match_digits str = (case digit_runs [] str of [] \<Rightarrow> None | ms \<Rightarrow> Some ms)"

text \<open>\<^verbatim>\<open>parseInt(str, 10)\<close> on a string of digits.\<close>

definition parseInt :: "string \<Rightarrow> real" where
  "parseInt str = real (foldl (\<lambda>n c. 10 * n + (of_char c - 48)) 0 str)"

definition BlendBackgroundWithPageBackground ::
  "('obj, 'mat, 'plane) env \<Rightarrow> rgbacolor \<Rightarrow> js_error + rgbcolor" where
  "BlendBackgroundWithPageBackground E bc =
     (case match_digits (bodyBackgroundColor E) of
        None \<Rightarrow> Inl TypeError
      | Some bgColors \<Rightarrow>
          if length bgColors < 3 then Inr (RGBColor (col_r bc) (col_g bc) (col_b bc))
          else (let alpha = ColorComponentToFloat E (col_a bc)
                in Inr (RGBColor
                     (parseInt (bgColors ! 0) * (1 - alpha) + col_r bc * alpha)
                     (parseInt (bgColors ! 1) * (1 - alpha) + col_g bc * alpha)
                     (parseInt (bgColors ! 2) * (1 - alpha) + col_b bc * alpha))))"

text \<open>\<^verbatim>\<open>Resize\<close>. The pixel values of \<^verbatim>\<open>style.left\<close> and \<^verbatim>\<open>style.top\<close> are kept as numbers.\<close>

definition Resize ::
  "('obj, 'mat, 'plane) env \<Rightarrow> 'obj identificationTool \<Rightarrow> 'obj identificationTool outcome" where
  "Resize E s =
     (if \<not> isActive s then Inr s
      else (case panel s of
              None \<Rightarrow> Inl (TypeError, s)
            | Some p \<Rightarrow>
                (let canvasRect = GetCanvas_rect (viewer s);
                     panelRect = getBoundingClientRect E p;
                     canvasWidth = rect_right canvasRect - rect_left canvasRect;
                     panelWidth = rect_right panelRect - rect_left panelRect
                 in Inr (s\<lparr>panel := Some (p\<lparr>
                      style_left_px := Some (rect_left canvasRect + (canvasWidth - panelWidth) / 2),
                      style_top_px := Some (rect_top canvasRect + 10)\<rparr>)\<rparr>))))"

text \<open>
  \<^verbatim>\<open>UpdatePanel\<close>. With no panel the first access throws, before any change. The local
  function \<^verbatim>\<open>AddValue\<close> of the website copy is never called, and \<^verbatim>\<open>console.log\<close> is
  left out. The last branch exists in the website copy only.
\<close>

definition UpdatePanel ::
  "source_file \<Rightarrow> ('obj, 'mat, 'plane) env \<Rightarrow> 'obj identificationTool
     \<Rightarrow> 'obj identificationTool outcome" where
  "UpdatePanel V E s =
     (case panel s of
        None \<Rightarrow> Inl (TypeError, s)
      | Some p0 \<Rightarrow>
          (let p = ClearDomElement p0;
               styled =
                 (if backgroundIsEnvMap (settings s)
                  then Inr (p\<lparr>style_color := ''#ffffff'',
                              style_backgroundColor := ''rgba(0,0,0,0.5)''\<rparr>)
                  else (case BlendBackgroundWithPageBackground E (backgroundColor (settings s)) of
                          Inl e \<Rightarrow> Inl e
                        | Inr blendedColor \<Rightarrow>
                            Inr (p\<lparr>style_color :=
                                     (if IsDarkTextNeededForColor E blendedColor
                                      then ''#000000'' else ''#ffffff''),
                                   style_backgroundColor := ''transparent''\<rparr>)))
           in case styled of
                Inl e \<Rightarrow> Inl (e, s\<lparr>panel := Some p\<rparr>)
              | Inr p \<Rightarrow>
                  (let s1 =
                     (if length (markers s) = 0
                      then s\<lparr>panel := Some (p\<lparr>innerHTML := ''Select 1st''\<rparr>)\<rparr>
                      else if length (markers s) = 1
                      then s\<lparr>panel := Some (p\<lparr>innerHTML := ''Select 5th''\<rparr>)\<rparr>
                      else if length (markers s) = 2
                      then s\<lparr>panel := Some (p\<lparr>innerHTML := ''Select heel''\<rparr>)\<rparr>
                      else (case V of
                              Part000 \<Rightarrow> s\<lparr>panel := Some p\<rparr>
                            | Website \<Rightarrow>
                                (let sphere = Mesh (SphereGeometry 0.5 32 16) (MeshBasicMaterial 0xffff00);
                                     origin = Vector3 0 0 0;
                                     x = Vector3 2 0 0;
                                     y = Vector3 0 2 0;
                                     z = Vector3 0 0 2;
                                     redMaterial = LineBasicMaterial 0xff0000 False;
                                     greenMaterial = LineBasicMaterial 0x00ff00 False;
                                     blueMaterial = LineBasicMaterial 0x0000ff False;
                                     v = AddExtraObject (Object3D sphere) (viewer s);
                                     v = AddExtraObject (Object3D (CreateLineFromPoints [origin, x] redMaterial)) v;
                                     v = AddExtraObject (Object3D (CreateLineFromPoints [origin, y] greenMaterial)) v;
                                     v = AddExtraObject (Object3D (CreateLineFromPoints [origin, z] blueMaterial)) v
                                 in s\<lparr>panel := Some (p\<lparr>innerHTML := ''Check logs''\<rparr>), viewer := v\<rparr>)))
                   in Resize E s1)))"

subsection \<open>The methods of the tool\<close>

definition SetActive ::
  "source_file \<Rightarrow> ('obj, 'mat, 'plane) env \<Rightarrow> bool \<Rightarrow> 'obj identificationTool
     \<Rightarrow> 'obj identificationTool outcome" where
  "SetActive V E b s =
     (if isActive s = b then Inr s
      else (let s1 = s\<lparr>isActive := b\<rparr>
            in case button s1 of
                 None \<Rightarrow> Inl (TypeError, s1)
               | Some btn \<Rightarrow>
                   (let s2 = s1\<lparr>button := Some (SetSelected b btn)\<rparr>
                    in if isActive s2
                       then (let s3 = s2\<lparr>panel := Some (AddDiv ''ov_identification_panel'')\<rparr>
                             in case UpdatePanel V E s3 of
                                  Inl t \<Rightarrow> Inl t
                                | Inr s4 \<Rightarrow> Resize E s4)
                       else (let s3 = ClearMarkers s2
                             in case panel s3 of
                                  None \<Rightarrow> Inl (TypeError, s3)
                                | Some p \<Rightarrow> Inr (s3\<lparr>panel := Some (p\<lparr>in_document := False\<rparr>)\<rparr>)))))"

text \<open>
  \<^verbatim>\<open>AddMarker\<close>. The website copy joins the first two markers by a line; an address in
  \<^verbatim>\<open>markers\<close> always holds a marker (\<open>run_wf\<close> below), the other cases are there to
  make the function total.
\<close>

definition AddMarker ::
  "source_file \<Rightarrow> ('obj, 'mat, 'plane) env \<Rightarrow> 'obj intersection \<Rightarrow> 'obj identificationTool
     \<Rightarrow> 'obj identificationTool" where
  "AddMarker V E i s =
     (let (r, s1) = GenerateMarker E i s;
          s2 = s1\<lparr>markers := markers s1 @ [r]\<rparr>
      in case V of
           Part000 \<Rightarrow> s2
         | Website \<Rightarrow>
             if length (markers s2) = 2
             then (case (store s2 (markers s2 ! 0), store s2 (markers s2 ! 1)) of
                     (Some m0, Some m1) \<Rightarrow>
                       (let mat = CreateMaterial;
                            aPoint = point (GetIntersection m0);
                            bPoint = point (GetIntersection m1)
                        in s2\<lparr>viewer := AddExtraObject
                                 (Object3D (CreateLineFromPoints [aPoint, bPoint] mat)) (viewer s2)\<rparr>)
                   | _ \<Rightarrow> s2)
             else s2)"

text \<open>The test that makes \<^verbatim>\<open>Click\<close> return without adding a marker.\<close>

definition Click_guard :: "source_file \<Rightarrow> 'obj identificationTool \<Rightarrow> bool" where
  "Click_guard V s =
     (case V of Website \<Rightarrow> length (markers s) = 3 | Part000 \<Rightarrow> length (markers s) \<ge> 3)"

definition Click ::
  "source_file \<Rightarrow> ('obj, 'mat, 'plane) env \<Rightarrow> mouse \<Rightarrow> 'obj identificationTool
     \<Rightarrow> 'obj identificationTool outcome" where
  "Click V E mouseCoordinates s =
     (case GetMeshIntersectionUnderMouse (viewer s) mouseCoordinates of
        None \<Rightarrow> UpdatePanel V E (ClearMarkers s)
      | Some i \<Rightarrow>
          if Click_guard V s then Inr s
          else UpdatePanel V E (AddMarker V E i s))"

subsection \<open>Sequences of calls\<close>

text \<open>
  A call of a public method, with the library and page it runs against, or a change
  made by the rest of the application to what the viewer answers (scene, camera, canvas).
\<close>

datatype ('obj, 'mat, 'plane) call =
    Call_SetButton button
  | Call_SetActive "('obj, 'mat, 'plane) env" bool
  | Call_Click "('obj, 'mat, 'plane) env" mouse
  | Call_MouseMove "('obj, 'mat, 'plane) env" mouse
  | Call_ClearMarkers
  | Viewer_changes "mouse \<Rightarrow> 'obj intersection option" real rect

fun perform ::
  "source_file \<Rightarrow> ('obj, 'mat, 'plane) call \<Rightarrow> 'obj identificationTool \<Rightarrow> 'obj identificationTool" where
  "perform V (Call_SetButton btn) s = SetButton btn s"
| "perform V (Call_SetActive E b) s = final (SetActive V E b s)"
| "perform V (Call_Click E mc) s = final (Click V E mc s)"
| "perform V (Call_MouseMove E mc) s = MouseMove E mc s"
| "perform V Call_ClearMarkers s = ClearMarkers s"
| "perform V (Viewer_changes f rad c) s =
     s\<lparr>viewer := (viewer s)\<lparr>GetMeshIntersectionUnderMouse := f,
          GetBoundingSphere_radius := rad, GetCanvas_rect := c\<rparr>\<rparr>"

fun run ::
  "source_file \<Rightarrow> ('obj, 'mat, 'plane) call list \<Rightarrow> 'obj identificationTool
     \<Rightarrow> 'obj identificationTool" where
  "run V [] s = s"
| "run V (c # cs) s = run V cs (perform V c s)"

subsection \<open>Well-formed states\<close>

text \<open>
  The addresses held by the tool are allocated, the temporary marker is not one of the
  selected markers, no marker is selected twice, and at most three are selected.
\<close>

definition wf :: "'obj identificationTool \<Rightarrow> bool" where
  "wf s \<longleftrightarrow>
     (\<forall>r \<in> set (markers s). r < next_ref s) \<and>
     (\<forall>r. tempMarker s = Some r \<longrightarrow> r < next_ref s \<and> r \<notin> set (markers s)) \<and>
     (\<forall>r < next_ref s. store s r \<noteq> None) \<and>
     distinct (markers s) \<and>
     length (markers s) \<le> 3"

subsection \<open>A concrete library and scene\<close>

text \<open>
  An instance of the library in exact arithmetic, after the three.js operations on
  affine matrices (given by their columns), and a small scene: the ray-cast hits a mesh
  at four mouse positions. They serve to evaluate the model at concrete inputs.
\<close>

record matrix4 =
  column0 :: vector3
  column1 :: vector3
  column2 :: vector3
  column3 :: vector3

definition dot :: "vector3 \<Rightarrow> vector3 \<Rightarrow> real" where
  "dot a b = vec_x a * vec_x b + vec_y a * vec_y b + vec_z a * vec_z b"

definition multiplyScalar :: "vector3 \<Rightarrow> real \<Rightarrow> vector3" where
  "multiplyScalar a k = Vector3 (vec_x a * k) (vec_y a * k) (vec_z a * k)"

definition example_extractRotation :: "matrix4 \<Rightarrow> matrix4" where
  "example_extractRotation m =
     \<lparr>column0 = multiplyScalar (column0 m) (1 / sqrt (dot (column0 m) (column0 m))),
      column1 = multiplyScalar (column1 m) (1 / sqrt (dot (column1 m) (column1 m))),
      column2 = multiplyScalar (column2 m) (1 / sqrt (dot (column2 m) (column2 m))),
      column3 = Vector3 0 0 0\<rparr>"

definition example_applyMatrix4 :: "vector3 \<Rightarrow> matrix4 \<Rightarrow> vector3" where
  "example_applyMatrix4 a m =
     Vector3
       (vec_x (column0 m) * vec_x a + vec_x (column1 m) * vec_y a + vec_x (column2 m) * vec_z a
          + vec_x (column3 m))
       (vec_y (column0 m) * vec_x a + vec_y (column1 m) * vec_y a + vec_y (column2 m) * vec_z a
          + vec_y (column3 m))
       (vec_z (column0 m) * vec_x a + vec_z (column1 m) * vec_y a + vec_z (column2 m) * vec_z a
          + vec_z (column3 m))"

definition example_distanceTo :: "vector3 \<Rightarrow> vector3 \<Rightarrow> real" where
  "example_distanceTo a b =
     sqrt ((vec_x a - vec_x b)\<^sup>2 + (vec_y a - vec_y b)\<^sup>2 + (vec_z a - vec_z b)\<^sup>2)"

definition example_angleTo :: "vector3 \<Rightarrow> vector3 \<Rightarrow> real" where
  "example_angleTo a b =
     (let denominator = sqrt (dot a a * dot b b)
      in if denominator = 0 then pi / 2
         else arccos (max (- 1) (min 1 (dot a b / denominator))))"

definition example_env :: "(matrix4, matrix4, vector3 \<times> real) env" where
  "example_env =
     \<lparr>updateWorldMatrix = (\<lambda>obj updateParents updateChildren. obj),
      matrixWorld = (\<lambda>obj. obj),
      extractRotation = example_extractRotation,
      applyMatrix4 = example_applyMatrix4,
      distanceTo = example_distanceTo,
      angleTo = example_angleTo,
      setFromNormalAndCoplanarPoint = (\<lambda>n p. (n, - dot p n)),
      distanceToPoint = (\<lambda>(n, c) p. dot n p + c),
      IsEqualEps = (\<lambda>a b eps. \<bar>b - a\<bar> < eps),
      BigEps = 0.0001,
      ColorComponentToFloat = (\<lambda>c. c / 255),
      IsDarkTextNeededForColor = (\<lambda>c. col_r c * 0.299 + col_g c * 0.587 + col_b c * 0.114 > 186),
      bodyBackgroundColor = ''rgb(255, 255, 255)'',
      getBoundingClientRect = (\<lambda>p. \<lparr>rect_left = 0, rect_right = 100, rect_top = 0\<rparr>)\<rparr>"

definition example_object :: "real \<Rightarrow> vector3 \<Rightarrow> matrix4" where
  "example_object k t =
     \<lparr>column0 = Vector3 0 k 0, column1 = Vector3 (- k) 0 0, column2 = Vector3 0 0 k,
      column3 = t\<rparr>"

definition example_hit :: "vector3 \<Rightarrow> matrix4 intersection" where
  "example_hit p = \<lparr>point = p, face = \<lparr>normal = Vector3 0 0 1\<rparr>,
     object = example_object 2 (Vector3 1 2 3)\<rparr>"

definition example_viewer :: "matrix4 viewer" where
  "example_viewer =
     \<lparr>GetMeshIntersectionUnderMouse =
        (\<lambda>(mx, my). if my \<noteq> 0 then None
                    else if mx = 0 then Some (example_hit (Vector3 0 0 0))
                    else if mx = 1 then Some (example_hit (Vector3 2 3 6))
                    else if mx = 2 then Some (example_hit (Vector3 1 4 8))
                    else if mx = 3 then Some (example_hit (Vector3 0 0 7))
                    else None),
      GetBoundingSphere_radius = 10,
      GetCanvas_rect = \<lparr>rect_left = 0, rect_right = 800, rect_top = 0\<rparr>,
      extraObjects = [],
      renders = 0\<rparr>"

definition example_settings :: settings where
  "example_settings = \<lparr>backgroundIsEnvMap = False,
     backgroundColor = \<lparr>col_r = 255, col_g = 255, col_b = 255, col_a = 255\<rparr>\<rparr>"

definition example_start :: "(matrix4, matrix4, vector3 \<times> real) call list" where
  "example_start = [Call_SetButton \<lparr>selected = False\<rparr>, Call_SetActive example_env True]"

definition example_tool :: "real list \<Rightarrow> matrix4 identificationTool" where
  "example_tool xs =
     run Website (example_start @ map (\<lambda>x. Call_Click example_env (x, 0)) xs)
       (IdentificationTool example_viewer example_settings)"



section \<open>Properties\<close>

subsection \<open>What the methods leave unchanged\<close>

lemma final_simps [simp]: "final (Inr s) = s" "final (Inl (e, s)) = s"
  by (simp_all add: final_def)

lemma Resize_frame:
  "markers (final (Resize E s)) = markers s"
  "tempMarker (final (Resize E s)) = tempMarker s"
  "store (final (Resize E s)) = store s"
  "next_ref (final (Resize E s)) = next_ref s"
  "viewer (final (Resize E s)) = viewer s"
  "isActive (final (Resize E s)) = isActive s"
  by (simp_all add: Resize_def Let_def split: option.splits)

lemma UpdatePanel_frame:
  "markers (final (UpdatePanel V E s)) = markers s"
  "tempMarker (final (UpdatePanel V E s)) = tempMarker s"
  "store (final (UpdatePanel V E s)) = store s"
  "next_ref (final (UpdatePanel V E s)) = next_ref s"
  "isActive (final (UpdatePanel V E s)) = isActive s"
  by (simp_all add: UpdatePanel_def Let_def Resize_frame split: option.splits sum.splits source_file.splits)

lemma UpdatePanel_extraObjects:
  assumes "length (markers s) \<le> 2 \<or> V = Part000"
  shows "extraObjects (viewer (final (UpdatePanel V E s))) = extraObjects (viewer s)"
proof -
  have "length (markers s) = 0 \<or> length (markers s) = 1 \<or> length (markers s) = 2 \<or> V = Part000"
    using assms by arith
  then show ?thesis
    by (auto simp add: UpdatePanel_def Let_def Resize_frame split: option.splits sum.splits)
qed

lemma AddMarker_frame:
  "markers (AddMarker V E i s) = markers s @ [next_ref s]"
  "store (AddMarker V E i s) =
     (store s)(next_ref s \<mapsto> Marker E i (GetBoundingSphere_radius (viewer s) / 20))"
  "next_ref (AddMarker V E i s) = Suc (next_ref s)"
  "tempMarker (AddMarker V E i s) = tempMarker s"
  "isActive (AddMarker V E i s) = isActive s"
  "panel (AddMarker V E i s) = panel s"
  by (simp_all add: AddMarker_def GenerateMarker_def Let_def
        split: source_file.splits option.splits prod.splits)

lemma ClearMarkers_simps:
  "markers (ClearMarkers s) = []"
  "tempMarker (ClearMarkers s) = None"
  "extraObjects (viewer (ClearMarkers s)) = []"
  "store (ClearMarkers s) = store s"
  "next_ref (ClearMarkers s) = next_ref s"
  "panel (ClearMarkers s) = panel s"
  by (simp_all add: ClearMarkers_def ClearExtra_def)

lemma wf_ClearMarkers: "wf s \<Longrightarrow> wf (ClearMarkers s)"
  by (simp add: wf_def ClearMarkers_simps)

lemma wf_AddMarker:
  assumes "wf s" and "length (markers s) < 3"
  shows "wf (AddMarker V E i s)"
  using assms unfolding wf_def AddMarker_frame
  by (auto simp add: less_Suc_eq)

lemma wf_UpdatePanel: "wf s \<Longrightarrow> wf (final (UpdatePanel V E s))"
  by (simp add: wf_def UpdatePanel_frame)

lemma Click_guard_wf: "wf s \<Longrightarrow> \<not> Click_guard V s \<Longrightarrow> length (markers s) < 3"
  by (cases V) (auto simp add: Click_guard_def wf_def)

lemma wf_Click: "wf s \<Longrightarrow> wf (final (Click V E mc s))"
  by (auto simp add: Click_def wf_UpdatePanel wf_ClearMarkers wf_AddMarker Click_guard_wf
        split: option.splits)

lemma on_marker_frame:
  "markers (on_marker r f s) = markers s"
  "tempMarker (on_marker r f s) = tempMarker s"
  "next_ref (on_marker r f s) = next_ref s"
  "viewer (on_marker r f s) = viewer s"
  "panel (on_marker r f s) = panel s"
  "isActive (on_marker r f s) = isActive s"
  "r' \<noteq> r \<Longrightarrow> store (on_marker r f s) r' = store s r'"
  "store (on_marker r f s) r = map_option f (store s r)"
  by (simp_all add: on_marker_def split: option.splits)

lemma wf_on_marker: "wf s \<Longrightarrow> wf (on_marker r f s)"
  unfolding wf_def on_marker_frame
  by (auto simp add: on_marker_def split: option.splits)

lemma MouseMove_markers: "markers (MouseMove E mc s) = markers s"
  by (simp add: MouseMove_def GenerateMarker_def Let_def on_marker_frame
        split: option.splits prod.splits)

lemma wf_viewer_update [simp]: "wf (s\<lparr>viewer := v\<rparr>) = wf s"
  by (simp add: wf_def)

lemma wf_GenerateMarker_temp:
  assumes "wf s" and "tempMarker s = None" and "GenerateMarker E i s = (r, s')"
  shows "wf (s'\<lparr>tempMarker := Some r\<rparr>)"
  using assms unfolding wf_def GenerateMarker_def Let_def
  by (auto simp add: less_Suc_eq)

lemma wf_MouseMove: "wf s \<Longrightarrow> wf (MouseMove E mc s)"
  unfolding MouseMove_def Let_def
  by (auto simp add: wf_on_marker wf_GenerateMarker_temp split: option.splits prod.splits)

lemma UpdatePanel_Inr:
  assumes "UpdatePanel V E s = Inr s'"
  shows "markers s' = markers s \<and> tempMarker s' = tempMarker s \<and> store s' = store s
         \<and> next_ref s' = next_ref s"
  using assms UpdatePanel_frame [of V E s] by auto

lemma UpdatePanel_Inl:
  assumes "UpdatePanel V E s = Inl (e, s')"
  shows "markers s' = markers s \<and> tempMarker s' = tempMarker s \<and> store s' = store s
         \<and> next_ref s' = next_ref s"
  using assms UpdatePanel_frame [of V E s] by auto

lemma SetActive_frame:
  "store (final (SetActive V E b s)) = store s"
  "next_ref (final (SetActive V E b s)) = next_ref s"
  "markers (final (SetActive V E b s)) = markers s \<or> markers (final (SetActive V E b s)) = []"
  "tempMarker (final (SetActive V E b s)) = tempMarker s
     \<or> tempMarker (final (SetActive V E b s)) = None"
  unfolding SetActive_def Let_def
  by (auto simp add: Resize_frame ClearMarkers_simps
        split: option.splits sum.splits dest!: UpdatePanel_Inr UpdatePanel_Inl)

lemma wf_SetActive: "wf s \<Longrightarrow> wf (final (SetActive V E b s))"
  using SetActive_frame [of V E b s] unfolding wf_def
  by auto

lemma wf_perform: "wf s \<Longrightarrow> wf (perform V c s)"
  by (cases c) (simp_all add: wf_SetActive wf_Click wf_MouseMove wf_ClearMarkers, simp_all add: wf_def SetButton_def)

lemma wf_IdentificationTool: "wf (IdentificationTool v st)"
  by (simp add: wf_def IdentificationTool_def)

lemma run_wf: "wf s \<Longrightarrow> wf (run V cs s)"
  by (induction cs arbitrary: s) (simp_all add: wf_perform)

lemma reachable_wf: "wf (run V calls (IdentificationTool v st))"
  by (simp add: run_wf wf_IdentificationTool)

lemma Marker_fields:
  "intersection (Marker E i rad) = i"
  "position (markerObject (Marker E i rad)) = point i"
  "visible (markerObject (Marker E i rad)) = True"
  "lookAt_target (markerObject (Marker E i rad)) = Some (GetFaceWorldNormal E i)"
  by (simp_all add: Marker_def UpdatePosition_def Let_def Vector3_def)

lemma Click_hit:
  assumes "GetMeshIntersectionUnderMouse (viewer s) mc = Some i" and "\<not> Click_guard V s"
  shows "markers (final (Click V E mc s)) = markers s @ [next_ref s]"
    and "store (final (Click V E mc s)) =
           (store s)(next_ref s \<mapsto> Marker E i (GetBoundingSphere_radius (viewer s) / 20))"
    and "next_ref (final (Click V E mc s)) = Suc (next_ref s)"
    and "tempMarker (final (Click V E mc s)) = tempMarker s"
  using assms by (simp_all add: Click_def UpdatePanel_frame AddMarker_frame)

lemma Click_rejected:
  assumes "GetMeshIntersectionUnderMouse (viewer s) mc = Some i" and "Click_guard V s"
  shows "Click V E mc s = Inr s"
  using assms by (simp add: Click_def)

lemma Click_miss:
  assumes "GetMeshIntersectionUnderMouse (viewer s) mc = None"
  shows "markers (final (Click V E mc s)) = []"
    and "tempMarker (final (Click V E mc s)) = None"
    and "extraObjects (viewer (final (Click V E mc s))) = []"
    and "store (final (Click V E mc s)) = store s"
    and "next_ref (final (Click V E mc s)) = next_ref s"
  using assms
  by (simp_all add: Click_def UpdatePanel_frame UpdatePanel_extraObjects ClearMarkers_simps)

lemma Click_guard_iff: "length (markers s) \<le> 3 \<Longrightarrow> Click_guard V s \<longleftrightarrow> length (markers s) = 3"
  by (cases V) (auto simp add: Click_guard_def)

lemma MouseMove_store_other:
  assumes "tempMarker (MouseMove E mc s) \<noteq> Some r"
  shows "store (MouseMove E mc s) r = store s r"
  using assms
  by (auto simp add: MouseMove_def GenerateMarker_def Let_def on_marker_frame
        split: option.splits prod.splits if_splits)

lemma run_append: "run V (cs @ ds) s = run V ds (run V cs s)"
  by (induction cs arbitrary: s) simp_all

lemma example_tool_snoc:
  "example_tool (xs @ [x]) = final (Click Website example_env (x, 0) (example_tool xs))"
  by (simp add: example_tool_def run_append)

lemma Resize_scene:
  "settings (final (Resize E s)) = settings s"
  "panel (final (Resize E s)) = None \<longleftrightarrow> panel s = None"
  by (auto simp add: Resize_def Let_def split: option.splits)

lemma UpdatePanel_scene:
  "GetMeshIntersectionUnderMouse (viewer (final (UpdatePanel V E s))) =
     GetMeshIntersectionUnderMouse (viewer s)"
  "GetBoundingSphere_radius (viewer (final (UpdatePanel V E s))) =
     GetBoundingSphere_radius (viewer s)"
  "settings (final (UpdatePanel V E s)) = settings s"
  "panel (final (UpdatePanel V E s)) = None \<longleftrightarrow> panel s = None"
  by (simp_all add: UpdatePanel_def Let_def Resize_frame Resize_scene AddExtraObject_def
        del: not_None_eq split: option.splits sum.splits source_file.splits)

lemma AddMarker_scene:
  "GetMeshIntersectionUnderMouse (viewer (AddMarker V E i s)) =
     GetMeshIntersectionUnderMouse (viewer s)"
  "GetBoundingSphere_radius (viewer (AddMarker V E i s)) = GetBoundingSphere_radius (viewer s)"
  "settings (AddMarker V E i s) = settings s"
  by (simp_all add: AddMarker_def GenerateMarker_def Let_def AddExtraObject_def
        split: source_file.splits option.splits prod.splits)

lemma ClearMarkers_scene:
  "GetMeshIntersectionUnderMouse (viewer (ClearMarkers s)) =
     GetMeshIntersectionUnderMouse (viewer s)"
  "GetBoundingSphere_radius (viewer (ClearMarkers s)) = GetBoundingSphere_radius (viewer s)"
  "settings (ClearMarkers s) = settings s"
  by (simp_all add: ClearMarkers_def ClearExtra_def)

lemma Click_scene:
  "GetMeshIntersectionUnderMouse (viewer (final (Click V E mc s))) =
     GetMeshIntersectionUnderMouse (viewer s)"
  "GetBoundingSphere_radius (viewer (final (Click V E mc s))) =
     GetBoundingSphere_radius (viewer s)"
  "settings (final (Click V E mc s)) = settings s"
  "panel (final (Click V E mc s)) = None \<longleftrightarrow> panel s = None"
  by (simp_all add: Click_def UpdatePanel_scene AddMarker_scene ClearMarkers_scene
        AddMarker_frame ClearMarkers_simps del: not_None_eq split: option.splits)

lemma then_Resize_final:
  "final (case r of Inl t \<Rightarrow> Inl t | Inr x \<Rightarrow> Resize E x) =
     (case r of Inl t \<Rightarrow> snd t | Inr x \<Rightarrow> final (Resize E x))"
  by (cases r) (auto simp add: final_def)

lemma SetActive_True_final:
  assumes "\<not> isActive s" and "button s = Some btn"
  shows "final (SetActive V E True s) =
           final (UpdatePanel V E (s\<lparr>isActive := True, button := Some (SetSelected True btn),
                   panel := Some (AddDiv ''ov_identification_panel'')\<rparr>))
         \<or> final (SetActive V E True s) =
           final (Resize E (final (UpdatePanel V E (s\<lparr>isActive := True,
                   button := Some (SetSelected True btn),
                   panel := Some (AddDiv ''ov_identification_panel'')\<rparr>))))"
proof -
  let ?s3 = "s\<lparr>isActive := True, button := Some (SetSelected True btn),
                   panel := Some (AddDiv ''ov_identification_panel'')\<rparr>"
  have eq: "SetActive V E True s =
              (case UpdatePanel V E ?s3 of Inl t \<Rightarrow> Inl t | Inr x \<Rightarrow> Resize E x)"
    using assms by (simp add: SetActive_def Let_def)
  show ?thesis
    unfolding eq then_Resize_final
    by (cases "UpdatePanel V E ?s3") (auto simp add: final_def)
qed

lemma panel_Some:
  "(\<exists>p. panel (final (Resize E s)) = Some p) \<longleftrightarrow> (\<exists>p. panel s = Some p)"
  "(\<exists>p. panel (final (UpdatePanel V E s)) = Some p) \<longleftrightarrow> (\<exists>p. panel s = Some p)"
  "(\<exists>p. panel (final (Click V E mc s)) = Some p) \<longleftrightarrow> (\<exists>p. panel s = Some p)"
  by (simp_all only: not_None_eq [symmetric] Resize_scene UpdatePanel_scene Click_scene)

lemma SetActive_True:
  assumes "\<not> isActive s" and "button s = Some btn"
  shows "markers (final (SetActive V E True s)) = markers s"
    and "tempMarker (final (SetActive V E True s)) = tempMarker s"
    and "store (final (SetActive V E True s)) = store s"
    and "next_ref (final (SetActive V E True s)) = next_ref s"
    and "GetMeshIntersectionUnderMouse (viewer (final (SetActive V E True s))) =
           GetMeshIntersectionUnderMouse (viewer s)"
    and "GetBoundingSphere_radius (viewer (final (SetActive V E True s))) =
           GetBoundingSphere_radius (viewer s)"
    and "settings (final (SetActive V E True s)) = settings s"
    and "\<exists>p. panel (final (SetActive V E True s)) = Some p"
  using SetActive_True_final [OF assms, of V E]
  by (auto simp add: Resize_frame Resize_scene UpdatePanel_frame UpdatePanel_scene panel_Some)

lemma example_tool_Nil:
  "GetMeshIntersectionUnderMouse (viewer (example_tool [])) =
     GetMeshIntersectionUnderMouse example_viewer"
  "GetBoundingSphere_radius (viewer (example_tool [])) = 10"
  "settings (example_tool []) = example_settings"
  "markers (example_tool []) = []"
  "next_ref (example_tool []) = 0"
  "tempMarker (example_tool []) = None"
  "store (example_tool []) = (\<lambda>r. None)"
  "\<exists>p. panel (example_tool []) = Some p"
proof -
  let ?s = "SetButton \<lparr>selected = False\<rparr> (IdentificationTool example_viewer example_settings)"
  have a: "\<not> isActive ?s" and b: "button ?s = Some \<lparr>selected = False\<rparr>"
    by (simp_all add: SetButton_def IdentificationTool_def)
  have e: "example_tool [] = final (SetActive Website example_env True ?s)"
    by (simp add: example_tool_def example_start_def)
  note f = SetActive_True [OF a b, of Website example_env, folded e]
  show "\<exists>p. panel (example_tool []) = Some p"
    by (rule f(8))
  show "GetMeshIntersectionUnderMouse (viewer (example_tool [])) =
     GetMeshIntersectionUnderMouse example_viewer"
    "GetBoundingSphere_radius (viewer (example_tool [])) = 10"
    "settings (example_tool []) = example_settings"
    "markers (example_tool []) = []"
    "next_ref (example_tool []) = 0"
    "tempMarker (example_tool []) = None"
    "store (example_tool []) = (\<lambda>r. None)"
    unfolding f(1-7)
    by (simp_all add: SetButton_def IdentificationTool_def example_viewer_def)
qed

lemma example_ray:
  "GetMeshIntersectionUnderMouse (viewer (example_tool xs)) =
     GetMeshIntersectionUnderMouse example_viewer"
  "GetBoundingSphere_radius (viewer (example_tool xs)) = 10"
  "settings (example_tool xs) = example_settings"
  "\<exists>p. panel (example_tool xs) = Some p"
  by (induction xs rule: rev_induct)
     (simp_all add: example_tool_Nil example_tool_snoc Click_scene panel_Some)

lemma example_hits:
  "GetMeshIntersectionUnderMouse example_viewer (0, 0) = Some (example_hit (Vector3 0 0 0))"
  "GetMeshIntersectionUnderMouse example_viewer (1, 0) = Some (example_hit (Vector3 2 3 6))"
  "GetMeshIntersectionUnderMouse example_viewer (2, 0) = Some (example_hit (Vector3 1 4 8))"
  "GetMeshIntersectionUnderMouse example_viewer (3, 0) = Some (example_hit (Vector3 0 0 7))"
  "GetMeshIntersectionUnderMouse example_viewer (9, 9) = None"
  by (simp_all add: example_viewer_def)

lemma Click_guard_example: "length (markers s) < 3 \<Longrightarrow> \<not> Click_guard V s"
  by (cases V) (simp_all add: Click_guard_def)

lemma example_click:
  assumes "GetMeshIntersectionUnderMouse example_viewer (x, 0) = Some i"
    and "length (markers (example_tool xs)) < 3"
  shows "markers (example_tool (xs @ [x])) = markers (example_tool xs) @ [next_ref (example_tool xs)]"
    and "next_ref (example_tool (xs @ [x])) = Suc (next_ref (example_tool xs))"
    and "store (example_tool (xs @ [x])) =
           (store (example_tool xs))(next_ref (example_tool xs) \<mapsto> Marker example_env i (1 / 2))"
    and "tempMarker (example_tool (xs @ [x])) = tempMarker (example_tool xs)"
proof -
  have r: "GetMeshIntersectionUnderMouse (viewer (example_tool xs)) (x, 0) = Some i"
    using assms(1) by (simp add: example_ray)
  note h = Click_hit [OF r Click_guard_example [OF assms(2)], of Website example_env]
  show "markers (example_tool (xs @ [x])) = markers (example_tool xs) @ [next_ref (example_tool xs)]"
    and "next_ref (example_tool (xs @ [x])) = Suc (next_ref (example_tool xs))"
    and "store (example_tool (xs @ [x])) =
           (store (example_tool xs))(next_ref (example_tool xs) \<mapsto> Marker example_env i (1 / 2))"
    and "tempMarker (example_tool (xs @ [x])) = tempMarker (example_tool xs)"
    unfolding example_tool_snoc h by (simp_all add: example_ray)
qed

lemma example_one:
  "markers (example_tool [0]) = [0]"
  "next_ref (example_tool [0]) = 1"
  "store (example_tool [0]) 0 = Some (Marker example_env (example_hit (Vector3 0 0 0)) (1 / 2))"
  "tempMarker (example_tool [0]) = None"
  using example_click [OF example_hits(1), of "[]"]
  by (simp_all add: example_tool_Nil)

lemma example_two:
  "markers (example_tool [0, 1]) = [0, 1]"
  "next_ref (example_tool [0, 1]) = 2"
  "store (example_tool [0, 1]) 0 = Some (Marker example_env (example_hit (Vector3 0 0 0)) (1 / 2))"
  "store (example_tool [0, 1]) 1 = Some (Marker example_env (example_hit (Vector3 2 3 6)) (1 / 2))"
  "tempMarker (example_tool [0, 1]) = None"
  using example_click [OF example_hits(2), of "[0]"]
  by (simp_all add: example_one)

lemma example_three:
  "markers (example_tool [0, 1, 2]) = [0, 1, 2]"
  "next_ref (example_tool [0, 1, 2]) = 3"
  using example_click [OF example_hits(3), of "[0, 1]"]
  by (simp_all add: example_two)

lemma example_normal: "GetFaceWorldNormal example_env (example_hit p) = Vector3 0 0 1"
  by (simp add: GetFaceWorldNormal_def example_env_def example_hit_def example_object_def
        example_extractRotation_def example_applyMatrix4_def Vector3_def dot_def
        multiplyScalar_def)

lemma sqrt_49: "sqrt 49 = 7"
  by (rule real_sqrt_unique) simp_all

lemma example_values:
  "CalculateMarkerValues example_env
     (Marker example_env (example_hit (Vector3 0 0 0)) (1 / 2))
     (Marker example_env (example_hit (Vector3 2 3 6)) (1 / 2)) =
   \<lparr>pointsDistance = Some 7, parallelFacesDistance = Some 6, facesAngle = Some 0\<rparr>"
  by (simp add: CalculateMarkerValues_def Let_def GetIntersection_def Marker_fields
        example_normal)
     (simp add: example_env_def example_hit_def example_distanceTo_def example_angleTo_def
        Vector3_def dot_def sqrt_49)

lemma example_two_other:
  "markers (example_tool [0, 2]) = [0, 1]"
  "store (example_tool [0, 2]) 0 = Some (Marker example_env (example_hit (Vector3 0 0 0)) (1 / 2))"
  "store (example_tool [0, 2]) 1 = Some (Marker example_env (example_hit (Vector3 1 4 8)) (1 / 2))"
  using example_click [OF example_hits(3), of "[0]"]
  by (simp_all add: example_one)

lemma sqrt_81: "sqrt 81 = 9"
  by (rule real_sqrt_unique) simp_all

lemma example_values_other:
  "CalculateMarkerValues example_env
     (Marker example_env (example_hit (Vector3 0 0 0)) (1 / 2))
     (Marker example_env (example_hit (Vector3 1 4 8)) (1 / 2)) =
   \<lparr>pointsDistance = Some 9, parallelFacesDistance = Some 8, facesAngle = Some 0\<rparr>"
  by (simp add: CalculateMarkerValues_def Let_def GetIntersection_def Marker_fields
        example_normal)
     (simp add: example_env_def example_hit_def example_distanceTo_def example_angleTo_def
        Vector3_def dot_def sqrt_81)

lemma example_match_digits:
  "match_digits (bodyBackgroundColor example_env) = Some [''255'', ''255'', ''255'']"
  by (simp add: example_env_def match_digits_def is_digit_def)

lemma BlendBackgroundWithPageBackground_returns:
  assumes "match_digits (bodyBackgroundColor E) = Some ds"
  shows "\<exists>c. BlendBackgroundWithPageBackground E bc = Inr c"
  using assms by (simp add: BlendBackgroundWithPageBackground_def Let_def)

lemma not_isl_final: "\<not> isl r \<Longrightarrow> r = Inr (final r)"
  by (cases r) simp_all

lemma Resize_not_isl: "panel s \<noteq> None \<Longrightarrow> isl (Resize E s) = False"
  by (auto simp add: Resize_def Let_def)

lemma UpdatePanel_not_isl:
  assumes "panel s \<noteq> None"
    and "backgroundIsEnvMap (settings s) \<or> match_digits (bodyBackgroundColor E) \<noteq> None"
  shows "\<not> isl (UpdatePanel V E s)"
proof -
  obtain p0 where p: "panel s = Some p0"
    using assms(1) by blast
  show ?thesis
  proof (cases "backgroundIsEnvMap (settings s)")
    case True
    then show ?thesis
      by (simp add: UpdatePanel_def Let_def p Resize_not_isl split: source_file.splits)
  next
    case False
    then obtain ds where "match_digits (bodyBackgroundColor E) = Some ds"
      using assms(2) by blast
    then obtain c where
      "BlendBackgroundWithPageBackground E (backgroundColor (settings s)) = Inr c"
      using BlendBackgroundWithPageBackground_returns by blast
    then show ?thesis
      using False
      by (simp add: UpdatePanel_def Let_def p Resize_not_isl split: source_file.splits)
  qed
qed

lemma UpdatePanel_innerHTML:
  assumes "UpdatePanel Website E s = Inr s'" and "2 \<le> length (markers s)"
  shows "map_option innerHTML (panel s') =
           Some (if length (markers s) = 2 then ''Select heel'' else ''Check logs'')"
  using assms
  by (auto simp add: UpdatePanel_def Resize_def Let_def split: option.splits sum.splits if_splits)

lemma example_UpdatePanel:
  "UpdatePanel Website example_env (example_tool xs) =
     Inr (final (UpdatePanel Website example_env (example_tool xs)))"
proof -
  have "panel (example_tool xs) \<noteq> None"
    using example_ray(4) [of xs] by blast
  then show ?thesis
    by (intro not_isl_final UpdatePanel_not_isl) (simp_all add: example_match_digits)
qed

lemma example_tool_run:
  "example_tool xs =
     run Website (example_start @ map (\<lambda>x. Call_Click example_env (x, 0)) xs)
       (IdentificationTool example_viewer example_settings)"
  by (simp add: example_tool_def)

lemma example_hit_fields:
  "point (example_hit p) = p"
  "normal (face (example_hit p)) = Vector3 0 0 1"
  by (simp_all add: example_hit_def)


subsection \<open>The example library on turned and scaled meshes\<close>














section \<open>The claims\<close>

subsection \<open>C1\<close>

text \<open>
  Claim C1 as stated says that, with two or more markers selected, \<^verbatim>\<open>UpdatePanel\<close>
  displays the distance, the angle and the separation of the selected points. It does
  not: after two clicks on the mesh at points with distance 7, separation 6 and angle 0
  the panel reads \<^verbatim>\<open>Select heel\<close>, and it reads the same after two clicks at points with
  distance 9 and separation 8.
\<close>

theorem UpdatePanel_measurements_counterexample:
  "markers (example_tool [0, 1]) = [0, 1]
   \<and> store (example_tool [0, 1]) 0 =
       Some (Marker example_env (example_hit (Vector3 0 0 0)) (1 / 2))
   \<and> store (example_tool [0, 1]) 1 =
       Some (Marker example_env (example_hit (Vector3 2 3 6)) (1 / 2))
   \<and> CalculateMarkerValues example_env
         (Marker example_env (example_hit (Vector3 0 0 0)) (1 / 2))
         (Marker example_env (example_hit (Vector3 2 3 6)) (1 / 2)) =
       \<lparr>pointsDistance = Some 7, parallelFacesDistance = Some 6, facesAngle = Some 0\<rparr>
   \<and> map_option innerHTML
         (panel (final (UpdatePanel Website example_env (example_tool [0, 1])))) =
       Some ''Select heel''
   \<and> markers (example_tool [0, 2]) = [0, 1]
   \<and> store (example_tool [0, 2]) 0 =
       Some (Marker example_env (example_hit (Vector3 0 0 0)) (1 / 2))
   \<and> store (example_tool [0, 2]) 1 =
       Some (Marker example_env (example_hit (Vector3 1 4 8)) (1 / 2))
   \<and> CalculateMarkerValues example_env
         (Marker example_env (example_hit (Vector3 0 0 0)) (1 / 2))
         (Marker example_env (example_hit (Vector3 1 4 8)) (1 / 2)) =
       \<lparr>pointsDistance = Some 9, parallelFacesDistance = Some 8, facesAngle = Some 0\<rparr>
   \<and> map_option innerHTML
         (panel (final (UpdatePanel Website example_env (example_tool [0, 2])))) =
       Some ''Select heel''"
  using UpdatePanel_innerHTML [OF example_UpdatePanel [of "[0, 1]"]]
    UpdatePanel_innerHTML [OF example_UpdatePanel [of "[0, 2]"]]
    example_two example_two_other
  by (simp add: example_values example_values_other)

text \<open>
  Claim C1, as amended. When two or more markers are selected and \<^verbatim>\<open>UpdatePanel\<close> of
  the website copy completes, the panel shows a fixed prompt chosen by the number of
  markers alone: \<^verbatim>\<open>Select heel\<close> for two markers, \<^verbatim>\<open>Check logs\<close> for more. No distance,
  angle or separation is displayed; \<^verbatim>\<open>CalculateMarkerValues\<close> is never called.
\<close>

theorem UpdatePanel_shows_prompt:
  assumes "UpdatePanel Website E s = Inr s'" and "2 \<le> length (markers s)"
  shows "map_option innerHTML (panel s') =
           Some (if length (markers s) = 2 then ''Select heel'' else ''Check logs'')"
  using assms
  by (auto simp add: UpdatePanel_def Resize_def Let_def split: option.splits sum.splits if_splits)

text \<open>The theorem at a concrete state of the example scene.\<close>

theorem UpdatePanel_shows_prompt_witness:
  "UpdatePanel Website example_env (example_tool [0, 1]) =
     Inr (final (UpdatePanel Website example_env (example_tool [0, 1])))
   \<and> 2 \<le> length (markers (example_tool [0, 1]))
   \<and> map_option innerHTML
         (panel (final (UpdatePanel Website example_env (example_tool [0, 1])))) =
       Some ''Select heel''"
  using UpdatePanel_shows_prompt [OF example_UpdatePanel [of "[0, 1]"]]
  by (simp add: example_two example_UpdatePanel [symmetric])

subsection \<open>C2\<close>

text \<open>
  Claim C2. In every state reached from the constructor by calls of the methods (in
  either copy of the file) at most three markers are selected, and a \<^verbatim>\<open>Click\<close> that hits
  the mesh while three markers are selected returns without any change.
\<close>

theorem at_most_three_markers:
  assumes "s = run V calls (IdentificationTool v st)"
  shows "length (markers s) \<le> 3
         \<and> (length (markers s) = 3 \<longrightarrow> GetMeshIntersectionUnderMouse (viewer s) mc = Some i
              \<longrightarrow> Click V E mc s = Inr s)"
proof -
  have "wf s" using assms by (simp add: reachable_wf)
  then have le: "length (markers s) \<le> 3" by (simp add: wf_def)
  show ?thesis
    using le by (auto simp add: Click_rejected Click_guard_iff)
qed

text \<open>The theorem at a concrete state of the example scene.\<close>

theorem at_most_three_markers_witness:
  "length (markers (example_tool [0, 1, 2])) = 3
   \<and> GetMeshIntersectionUnderMouse (viewer (example_tool [0, 1, 2])) (3, 0) =
       Some (example_hit (Vector3 0 0 7))
   \<and> Click Website example_env (3, 0) (example_tool [0, 1, 2]) = Inr (example_tool [0, 1, 2])"
  using at_most_three_markers [OF example_tool_run, of "[0, 1, 2]" "(3, 0)"
      "example_hit (Vector3 0 0 7)" example_env]
  by (simp add: example_three example_ray example_hits)

subsection \<open>C3\<close>




subsection \<open>C4\<close>




subsection \<open>C5\<close>



subsection \<open>C6\<close>

text \<open>
  Claim C6. In a state reached by calls of the methods, a \<^verbatim>\<open>Click\<close> that hits the mesh
  while fewer than three markers are selected appends exactly one marker, a new one, to
  the list, and that marker holds the intersection and is positioned at its point. This
  holds for both copies of the file, also when \<^verbatim>\<open>UpdatePanel\<close> throws afterwards.
\<close>

theorem Click_appends_marker:
  assumes "s = run V calls (IdentificationTool v st)"
    and "GetMeshIntersectionUnderMouse (viewer s) mc = Some i"
    and "length (markers s) < 3"
  shows "markers (final (Click V E mc s)) = markers s @ [next_ref s]
         \<and> next_ref s \<notin> set (markers s)
         \<and> (\<exists>m. store (final (Click V E mc s)) (next_ref s) = Some m
                \<and> GetIntersection m = i \<and> position (GetObject m) = point i)"
proof -
  have w: "wf s" using assms(1) by (simp add: reachable_wf)
  have g: "\<not> Click_guard V s"
    using assms(3) by (cases V) (simp_all add: Click_guard_def)
  have "next_ref s \<notin> set (markers s)"
    using w by (auto simp add: wf_def)
  then show ?thesis
    by (simp add: Click_hit [OF assms(2) g] GetIntersection_def GetObject_def Marker_fields)
qed

text \<open>The theorem at a concrete state of the example scene.\<close>

theorem Click_appends_marker_witness:
  "GetMeshIntersectionUnderMouse (viewer (example_tool [0])) (1, 0) =
     Some (example_hit (Vector3 2 3 6))
   \<and> length (markers (example_tool [0])) < 3
   \<and> markers (final (Click Website example_env (1, 0) (example_tool [0]))) = [0, 1]
   \<and> (\<exists>m. store (final (Click Website example_env (1, 0) (example_tool [0]))) 1 = Some m
          \<and> GetIntersection m = example_hit (Vector3 2 3 6)
          \<and> position (GetObject m) = Vector3 2 3 6)"
  using Click_appends_marker [OF example_tool_run, of "[0]" "(1, 0)"
      "example_hit (Vector3 2 3 6)" example_env] example_one
  by (simp add: example_ray example_hits example_hit_fields)

subsection \<open>C7\<close>

text \<open>
  Claim C7. In a state reached by calls of the methods, a \<^verbatim>\<open>Click\<close> that hits the mesh
  leaves every marker selected before unchanged: the earlier markers are still the first
  entries of the list, and each of them is the same stored object (its intersection and
  its marker object with its position).
\<close>

theorem Click_keeps_earlier_markers:
  assumes "s = run V calls (IdentificationTool v st)"
    and "GetMeshIntersectionUnderMouse (viewer s) mc = Some i"
  shows "take (length (markers s)) (markers (final (Click V E mc s))) = markers s
         \<and> (\<forall>r \<in> set (markers s). store (final (Click V E mc s)) r = store s r)"
proof (cases "Click_guard V s")
  case True
  then show ?thesis by (simp add: Click_rejected [OF assms(2)])
next
  case False
  have "wf s" using assms(1) by (simp add: reachable_wf)
  then have "\<forall>r \<in> set (markers s). r \<noteq> next_ref s"
    by (auto simp add: wf_def)
  then show ?thesis
    by (simp add: Click_hit [OF assms(2) False])
qed

text \<open>The theorem at a concrete state of the example scene.\<close>

theorem Click_keeps_earlier_markers_witness:
  "GetMeshIntersectionUnderMouse (viewer (example_tool [0])) (1, 0) =
     Some (example_hit (Vector3 2 3 6))
   \<and> markers (example_tool [0]) = [0]
   \<and> take 1 (markers (final (Click Website example_env (1, 0) (example_tool [0])))) = [0]
   \<and> store (final (Click Website example_env (1, 0) (example_tool [0]))) 0 =
       Some (Marker example_env (example_hit (Vector3 0 0 0)) (1 / 2))"
  using Click_keeps_earlier_markers [OF example_tool_run, of "[0]" "(1, 0)"
      "example_hit (Vector3 2 3 6)" example_env] example_one
  by (simp add: example_ray example_hits)

subsection \<open>C8\<close>

text \<open>
  Claim C8. A \<^verbatim>\<open>Click\<close> that hits no mesh clears the selection, whatever was selected:
  the list of markers is empty, the temporary marker is \<^verbatim>\<open>null\<close> and the viewer has no
  extra objects.
\<close>

theorem Click_miss_clears_selection:
  assumes "GetMeshIntersectionUnderMouse (viewer s) mc = None"
  shows "markers (final (Click V E mc s)) = []
         \<and> tempMarker (final (Click V E mc s)) = None
         \<and> extraObjects (viewer (final (Click V E mc s))) = []"
  by (simp add: Click_miss [OF assms])

text \<open>The theorem at a concrete state of the example scene.\<close>

theorem Click_miss_clears_selection_witness:
  "GetMeshIntersectionUnderMouse (viewer (example_tool [0, 1])) (9, 9) = None
   \<and> markers (example_tool [0, 1]) = [0, 1]
   \<and> markers (final (Click Website example_env (9, 9) (example_tool [0, 1]))) = []
   \<and> tempMarker (final (Click Website example_env (9, 9) (example_tool [0, 1]))) = None
   \<and> extraObjects (viewer (final (Click Website example_env (9, 9) (example_tool [0, 1])))) = []"
  using Click_miss_clears_selection [of "example_tool [0, 1]" "(9, 9)" Website example_env]
    example_two
  by (simp add: example_ray example_hits)

subsection \<open>C9\<close>

text \<open>
  Claim C9. In a state reached by calls of the methods, \<^verbatim>\<open>MouseMove\<close> leaves the list
  of selected markers unchanged, whether or not the ray-cast hits: the list is the same,
  every selected marker is the same stored object, and the only stored marker that may
  be created or changed is the temporary one.
\<close>

theorem MouseMove_keeps_markers:
  assumes "s = run V calls (IdentificationTool v st)"
  shows "markers (MouseMove E mc s) = markers s
         \<and> (\<forall>r \<in> set (markers s). store (MouseMove E mc s) r = store s r)
         \<and> (\<forall>r. tempMarker (MouseMove E mc s) \<noteq> Some r \<longrightarrow> store (MouseMove E mc s) r = store s r)"
proof -
  have "wf (MouseMove E mc s)"
    using assms by (simp add: reachable_wf wf_MouseMove)
  then have "\<forall>r \<in> set (markers s). tempMarker (MouseMove E mc s) \<noteq> Some r"
    by (auto simp add: wf_def MouseMove_markers)
  then show ?thesis
    by (simp add: MouseMove_markers MouseMove_store_other)
qed

text \<open>The theorem at a concrete state of the example scene.\<close>

theorem MouseMove_keeps_markers_witness:
  "markers (example_tool [0]) = [0]
   \<and> markers (MouseMove example_env (1, 0) (example_tool [0])) = [0]
   \<and> store (MouseMove example_env (1, 0) (example_tool [0])) 0 =
       Some (Marker example_env (example_hit (Vector3 0 0 0)) (1 / 2))"
  using MouseMove_keeps_markers [where E = example_env and mc = "(1, 0)",
      OF example_tool_run [of "[0]"]]
    example_one
  by simp

subsection \<open>C10\<close>

text \<open>
  Claim C10. While at most three markers are selected, the test \<^verbatim>\<open>markers.length === 3\<close>
  of the website copy and the test \<^verbatim>\<open>markers.length >= 3\<close> of the other copy agree, and
  \<^verbatim>\<open>Click\<close> leaves the same list of markers and the same stored markers in both copies;
  in particular a marker is added in the one exactly when it is added in the other.
\<close>

theorem Click_guards_agree:
  assumes "length (markers s) \<le> 3"
  shows "(Click_guard Website s \<longleftrightarrow> Click_guard Part000 s)
         \<and> markers (final (Click Website E mc s)) = markers (final (Click Part000 E mc s))
         \<and> store (final (Click Website E mc s)) = store (final (Click Part000 E mc s))
         \<and> (length (markers (final (Click Website E mc s))) = Suc (length (markers s))
              \<longleftrightarrow> length (markers (final (Click Part000 E mc s))) = Suc (length (markers s)))"
proof -
  have g: "Click_guard Website s \<longleftrightarrow> Click_guard Part000 s"
    using assms by (simp add: Click_guard_iff)
  show ?thesis
  proof (cases "GetMeshIntersectionUnderMouse (viewer s) mc")
    case None
    then show ?thesis using g by (simp add: Click_miss)
  next
    case (Some i)
    show ?thesis
    proof (cases "Click_guard Website s")
      case True
      then show ?thesis using g Some by (simp add: Click_rejected)
    next
      case False
      then show ?thesis using g Some by (simp add: Click_hit)
    qed
  qed
qed

text \<open>The theorem at a concrete state of the example scene.\<close>

theorem Click_guards_agree_witness:
  "length (markers (example_tool [0, 1, 2])) \<le> 3
   \<and> Click_guard Website (example_tool [0, 1, 2])
   \<and> Click_guard Part000 (example_tool [0, 1, 2])
   \<and> markers (final (Click Website example_env (3, 0) (example_tool [0, 1, 2]))) =
       markers (final (Click Part000 example_env (3, 0) (example_tool [0, 1, 2])))"
  using Click_guards_agree [of "example_tool [0, 1, 2]" example_env "(3, 0)"] example_three
  by (simp add: Click_guard_def)

end
